theory Spec2Isabelle
  imports Complex_Main
begin

section \<open>Data model\<close>

text \<open>
  The application keeps all reservation data in PostgreSQL tables (\<^verbatim>\<open>init_db.py\<close>)
  and manipulates them from \<^verbatim>\<open>app.py\<close>. Rows are records, a table is the list of
  its rows, and the database is a record of tables. Dates are day numbers (the code only
  compares dates and takes \<^verbatim>\<open>(a - b).days\<close>), odometer readings are integers and
  money is an exact rational (\<^verbatim>\<open>DECIMAL(10,2)\<close> columns and \<^verbatim>\<open>Decimal\<close>
  arithmetic; rounding of binary floats and of the column type is not modelled).
  Python strings are sequences of code points; every code point used here is below 256,
  so a \<^typ>\<open>string\<close> holds one \<^typ>\<open>char\<close> per code point
  (\<^verbatim>\<open>i-acute\<close> is \<open>0xED\<close>, \<^verbatim>\<open>I-acute\<close> is \<open>0xCD\<close>).
\<close>

datatype exn =
    KeyError string
  | InvalidOperation
  | DatabaseError
  | CarroNaoEncontrado int
  | FalhaAtualizarReserva int
  | ErroGerarContrato
  | ReservaNaoEncontrada int
  | FalhaAtualizarVeiculo
  | ErroGerarRecibo

type_synonym 'a dict = "(string \<times> 'a) list"

definition getitem :: "'a dict \<Rightarrow> string \<Rightarrow> exn + 'a" where
  "getitem d k = (case map_of d k of None \<Rightarrow> Inl (KeyError k) | Some v \<Rightarrow> Inr v)"

definition Disponivel :: string where
  "Disponivel = ''Dispon'' @ [CHR 0xED] @ ''vel''"

definition Indisponivel :: string where
  "Indisponivel = ''Indispon'' @ [CHR 0xED] @ ''vel''"

definition Excluido :: string where
  "Excluido = ''Exclu'' @ [CHR 0xED] @ ''do''"

definition STATUS_CARRO :: "string dict" where
  "STATUS_CARRO =
     [(''DISPONIVEL'', Disponivel),
      (''LOCADO'', ''Locado''),
      (''RESERVADO'', ''Reservado''),
      (''INDISPONIVEL'', Indisponivel),
      (''EXCLUIDO'', Excluido)]"

definition STATUS_RESERVA :: "string dict" where
  "STATUS_RESERVA =
     [(''RESERVADA'', ''Reservada''),
      (''LOCADA'', ''Locada''),
      (''CANCELADA'', ''Cancelada''),
      (''FINALIZADA'', ''Finalizada'')]"

definition Com_Multa_Pendente :: string where
  "Com_Multa_Pendente = ''Com Multa Pendente''"

record carro =
  c_id :: int
  c_marca :: string
  c_modelo :: string
  c_placa :: string
  c_diaria :: rat
  c_preco_km :: rat
  c_km_atual :: int
  c_status :: string

text \<open>
  Nullable columns that the code guards against \<^verbatim>\<open>None\<close> are options;
  \<open>r_status\<close> is the operational status, \<open>r_reserva_status\<close> the reservation status.
\<close>

record reserva =
  r_id :: int
  r_carro_id :: int
  r_cliente_id :: int
  r_data_inicio :: int
  r_data_fim :: int
  r_horario_entrega :: "nat option"
  r_reserva_status :: string
  r_status :: string
  r_custo_lavagem :: rat
  r_valor_total :: rat
  r_km_saida :: "int option"
  r_km_volta :: "int option"
  r_km_franquia :: "int option"
  r_adiantamento :: "rat option"
  r_valor_multas :: rat
  r_valor_danos :: rat
  r_valor_outros :: rat
  r_desconto_cliente :: rat
  r_meia_diaria :: bool
  r_total_diarias :: "rat option"
  r_pagamento_parcial_entrega :: rat
  r_valor_restante :: rat

record multa =
  m_id :: int
  m_reserva_id :: int
  m_tipo :: string
  m_valor :: rat
  m_data_multa :: int
  m_status :: string

record db =
  carros :: "carro list"
  reservas :: "reserva list"
  multas :: "multa list"

text \<open>
  \<^verbatim>\<open>UPDATE t SET ... WHERE id = %s\<close>: every row with that id is rewritten;
  \<^verbatim>\<open>cursor.rowcount\<close> is the number of rows hit.
\<close>

definition update_carros :: "int \<Rightarrow> (carro \<Rightarrow> carro) \<Rightarrow> db \<Rightarrow> db" where
  "update_carros i f d = d\<lparr>carros := map (\<lambda>c. if c_id c = i then f c else c) (carros d)\<rparr>"

definition rowcount_carros :: "int \<Rightarrow> db \<Rightarrow> nat" where
  "rowcount_carros i d = length (filter (\<lambda>c. c_id c = i) (carros d))"

definition update_reservas :: "int \<Rightarrow> (reserva \<Rightarrow> reserva) \<Rightarrow> db \<Rightarrow> db" where
  "update_reservas i f d = d\<lparr>reservas := map (\<lambda>r. if r_id r = i then f r else r) (reservas d)\<rparr>"

definition rowcount_reservas :: "int \<Rightarrow> db \<Rightarrow> nat" where
  "rowcount_reservas i d = length (filter (\<lambda>r. r_id r = i) (reservas d))"

definition update_multas :: "int \<Rightarrow> (multa \<Rightarrow> multa) \<Rightarrow> db \<Rightarrow> db" where
  "update_multas i f d = d\<lparr>multas := map (\<lambda>m. if m_id m = i then f m else m) (multas d)\<rparr>"

section \<open>Availability\<close>

text \<open>
  \<^verbatim>\<open>get_available_vehicles(data_inicio, data_fim, permitir_dia_devolucao)\<close>.
  The inner \<^verbatim>\<open>SELECT\<close> picks the reservations that block the period (the query
  is called with the parameters \<^verbatim>\<open>(data_fim, data_inicio)\<close>), the outer one the cars
  that are neither out of service nor blocked. \<^verbatim>\<open>ORDER BY\<close> is not modelled: the
  rows come in table order.
\<close>

definition reserva_bloqueia :: "bool \<Rightarrow> int \<Rightarrow> int \<Rightarrow> reserva \<Rightarrow> bool" where
  "reserva_bloqueia permitir_dia_devolucao data_inicio data_fim r \<longleftrightarrow>
     r_reserva_status r \<in> {''Reservada'', ''Locada''} \<and>
     (if permitir_dia_devolucao
      then r_data_inicio r < data_fim \<and> r_data_fim r > data_inicio
      else r_data_inicio r \<le> data_fim \<and> r_data_fim r \<ge> data_inicio)"

definition get_available_vehicles :: "db \<Rightarrow> int \<Rightarrow> int \<Rightarrow> bool \<Rightarrow> carro list" where
  "get_available_vehicles d data_inicio data_fim permitir_dia_devolucao =
     filter
       (\<lambda>c. c_status c \<notin> {Indisponivel, Excluido} \<and>
            c_id c \<notin> set (map r_carro_id
              (filter (reserva_bloqueia permitir_dia_devolucao data_inicio data_fim) (reservas d))))
       (carros d)"

section \<open>Pricing at creation and on edit\<close>







section \<open>Delivery\<close>

text \<open>
  What can go wrong outside the program during a transaction: the connection, a statement,
  the document generator, the commit. Each flag makes the corresponding call raise.
\<close>

record falhas =
  f_connect :: bool
  f_execute_carros :: bool
  f_execute_reservas :: bool
  f_pdf :: bool
  f_commit :: bool

text \<open>
  \<^verbatim>\<open>CHECK (data_fim >= data_inicio)\<close> of table \<^verbatim>\<open>reservas\<close>: a statement whose
  result breaks it raises.
\<close>

definition check_datas :: "db \<Rightarrow> bool" where
  "check_datas d \<longleftrightarrow> list_all (\<lambda>r. r_data_fim r \<ge> r_data_inicio r) (reservas d)"

text \<open>
  \<^verbatim>\<open>finalizar_entrega\<close>. The statements run on the transaction's working copy
  \<open>d1\<close>, \<open>d2\<close>; only \<^verbatim>\<open>conn.commit()\<close> makes it the database, and every
  exception of the inner \<^verbatim>\<open>try\<close> reaches \<^verbatim>\<open>conn.rollback()\<close>, which leaves the
  database as it was. \<open>Inr pdf_bytes\<close> stands for \<^verbatim>\<open>(True, msg, pdf_bytes)\<close> and
  \<open>Inl e\<close> for \<^verbatim>\<open>(False, msg, None)\<close>.
\<close>

definition finalizar_entrega ::
  "falhas \<Rightarrow> string \<Rightarrow> db \<Rightarrow> int \<Rightarrow> int \<Rightarrow> int \<Rightarrow> int \<Rightarrow> nat \<Rightarrow> carro \<Rightarrow> reserva \<Rightarrow> rat \<Rightarrow> rat
     \<Rightarrow> (exn + string) \<times> db" where
  "finalizar_entrega fl contrato d carro_id id_reserva_sel km_confirma data_saida horario_entrega
       dados_carro dados_reserva adiantamento valor_restante =
     (if f_connect fl then (Inl DatabaseError, d)
      else case getitem STATUS_CARRO ''LOCADO'' of
        Inl e \<Rightarrow> (Inl e, d)
      | Inr locado \<Rightarrow>
        if f_execute_carros fl then (Inl DatabaseError, d)
        else let d1 = update_carros carro_id
                        (\<lambda>c. c\<lparr>c_status := locado, c_km_atual := km_confirma\<rparr>) d
        in if rowcount_carros carro_id d = 0 then (Inl (CarroNaoEncontrado carro_id), d)
        else let dias_locacao = max 1 ((r_data_fim dados_reserva - data_saida) + 0);
                 valor_total = c_diaria dados_carro * of_int dias_locacao
        in case getitem STATUS_RESERVA ''LOCADA'' of
          Inl e \<Rightarrow> (Inl e, d)
        | Inr locada \<Rightarrow>
          let d2 = update_reservas id_reserva_sel
                     (\<lambda>r. r\<lparr>r_km_saida := Some km_confirma,
                            r_data_inicio := data_saida,
                            r_reserva_status := locada,
                            r_horario_entrega := Some horario_entrega,
                            r_adiantamento := Some adiantamento,
                            r_valor_total := valor_total,
                            r_valor_restante := valor_restante\<rparr>) d1
          in if f_execute_reservas fl \<or> \<not> check_datas d2
             then (Inl DatabaseError, d)
          else if rowcount_reservas id_reserva_sel d1 = 0
             then (Inl (FalhaAtualizarReserva id_reserva_sel), d)
          else if f_pdf fl then (Inl ErroGerarContrato, d)
          else if f_commit fl then (Inl DatabaseError, d)
          else (Inr contrato, d2))"




section \<open>Return\<close>

text \<open>
  Page \<^verbatim>\<open>Devolucao\<close>, the computations between the widgets. \<open>reserva\<close> is the row
  of the query \<^verbatim>\<open>query_dev\<close> (it carries the car's \<^verbatim>\<open>preco_km\<close>), \<open>hoje\<close> is
  \<^verbatim>\<open>date.today()\<close>; \<open>km_volta\<close>, the extra costs and \<open>valor_recebido\<close> are the values
  of the widgets (\<open>valor_lavagem\<close> is 0 when the box \<^verbatim>\<open>Adicionar Lavagem\<close> is not
  ticked; \<open>valor_recebido\<close> is only asked for when something is due).
  \<^verbatim>\<open>Decimal(str(None))\<close> raises \<^verbatim>\<open>InvalidOperation\<close>.
\<close>

record devolucao =
  dv_data_devolucao :: int
  dv_dias_cobranca :: int
  dv_km_rodados_totais :: int
  dv_km_franquia_reserva :: int
  dv_km_a_cobrar :: int
  dv_custo_km :: rat
  dv_custo_diarias_com_desconto :: rat
  dv_subtotal_sem_adiantamento :: rat
  dv_total_final :: rat
  dv_valor_pago :: rat
  dv_valor_restante :: rat

definition km_saida_safe :: "reserva \<Rightarrow> int" where
  "km_saida_safe reserva = (case r_km_saida reserva of None \<Rightarrow> 0 | Some k \<Rightarrow> k)"

text \<open>
  The allowance used for the charge: the stored one, but 0 once the distance driven exceeds
  it (the source overwrites \<^verbatim>\<open>km_franquia_reserva\<close>).
\<close>

definition km_franquia_reserva :: "reserva \<Rightarrow> int \<Rightarrow> int" where
  "km_franquia_reserva reserva km_volta =
     (let km_rodados_totais = km_volta - km_saida_safe reserva;
          km_franquia_reserva = (case r_km_franquia reserva of None \<Rightarrow> 0 | Some f \<Rightarrow> f)
      in if km_rodados_totais > km_franquia_reserva then 0 else km_franquia_reserva)"

definition km_a_cobrar :: "reserva \<Rightarrow> int \<Rightarrow> int" where
  "km_a_cobrar reserva km_volta =
     max 0 ((km_volta - km_saida_safe reserva) - km_franquia_reserva reserva km_volta)"

definition custo_km :: "reserva \<Rightarrow> rat \<Rightarrow> int \<Rightarrow> rat" where
  "custo_km reserva preco_km km_volta = of_int (km_a_cobrar reserva km_volta) * preco_km"

definition calcular_devolucao ::
  "reserva \<Rightarrow> rat \<Rightarrow> int \<Rightarrow> int \<Rightarrow> rat \<Rightarrow> rat \<Rightarrow> rat \<Rightarrow> rat \<Rightarrow> rat \<Rightarrow> exn + devolucao" where
  "calcular_devolucao reserva preco_km hoje km_volta valor_lavagem valor_multas valor_danos
       valor_outros valor_recebido =
     (let data_saida_real = r_data_inicio reserva;
          data_devolucao = (if hoje < data_saida_real then data_saida_real else hoje);
          dias = data_devolucao - data_saida_real;
          dias_cobranca = max dias 1;
          km_rodados_totais = km_volta - km_saida_safe reserva;
          total_diarias_stored = (case r_total_diarias reserva of None \<Rightarrow> 0 | Some t \<Rightarrow> t);
          custo_diarias_com_desconto = total_diarias_stored;
          subtotal_sem_adiantamento = custo_diarias_com_desconto +
                                      custo_km reserva preco_km km_volta + valor_lavagem +
                                      valor_multas + valor_danos + valor_outros
      in case r_adiantamento reserva of
           None \<Rightarrow> Inl InvalidOperation
         | Some adiantamento \<Rightarrow>
             let total_final = subtotal_sem_adiantamento - adiantamento;
                 valor_pago = (if total_final > 0 then valor_recebido else 0);
                 valor_restante = (if total_final > 0 then max 0 (total_final - valor_recebido)
                                   else 0)
             in Inr \<lparr>dv_data_devolucao = data_devolucao,
                     dv_dias_cobranca = dias_cobranca,
                     dv_km_rodados_totais = km_rodados_totais,
                     dv_km_franquia_reserva = km_franquia_reserva reserva km_volta,
                     dv_km_a_cobrar = km_a_cobrar reserva km_volta,
                     dv_custo_km = custo_km reserva preco_km km_volta,
                     dv_custo_diarias_com_desconto = custo_diarias_com_desconto,
                     dv_subtotal_sem_adiantamento = subtotal_sem_adiantamento,
                     dv_total_final = total_final,
                     dv_valor_pago = valor_pago,
                     dv_valor_restante = valor_restante\<rparr>)"


section \<open>Fines\<close>

text \<open>
  Page \<^verbatim>\<open>Gerenciar Multas\<close>. Registering a fine inserts it as \<^verbatim>\<open>Pendente\<close> and
  marks the reservation; the status form rewrites the fine and then the reservation.
  Both handlers call \<^verbatim>\<open>run_query\<close> statement by statement and ignore its result;
  the statements are taken to succeed.
\<close>

definition registrar_multa :: "db \<Rightarrow> int \<Rightarrow> int \<Rightarrow> string \<Rightarrow> rat \<Rightarrow> int \<Rightarrow> db" where
  "registrar_multa d nova_multa_id reserva_id tipo_multa valor_multa data_hora_infracao =
     (let d1 = d\<lparr>multas := multas d @
                  [\<lparr>m_id = nova_multa_id, m_reserva_id = reserva_id, m_tipo = tipo_multa,
                    m_valor = valor_multa, m_data_multa = data_hora_infracao,
                    m_status = ''Pendente''\<rparr>]\<rparr>
      in update_reservas reserva_id (\<lambda>r. r\<lparr>r_status := Com_Multa_Pendente\<rparr>) d1)"

definition status_opcoes :: "string list" where
  "status_opcoes = [''Pendente'', ''Paga'', ''Isentada'']"

definition atualizar_status_multa :: "db \<Rightarrow> multa \<Rightarrow> string \<Rightarrow> db" where
  "atualizar_status_multa d multa novo_status =
     (if novo_status \<noteq> m_status multa
      then let d1 = update_multas (m_id multa) (\<lambda>m. m\<lparr>m_status := novo_status\<rparr>) d
           in if novo_status = ''Paga''
              then update_reservas (m_reserva_id multa) (\<lambda>r. r\<lparr>r_status := ''Finalizada''\<rparr>) d1
              else update_reservas (m_reserva_id multa) (\<lambda>r. r\<lparr>r_status := Com_Multa_Pendente\<rparr>) d1
      else d)"

section \<open>Fleet\<close>




section \<open>Sample data\<close>

text \<open>
  A car at 100.00 a day and 0.80 a kilometre, and a rented reservation of it that left at
  1000 km with an allowance of 300 km.
\<close>

definition carro_exemplo :: carro where
  "carro_exemplo =
     \<lparr>c_id = 1, c_marca = ''Fiat'', c_modelo = ''Uno'', c_placa = ''ABC1D23'',
      c_diaria = 100, c_preco_km = 4 / 5, c_km_atual = 1000, c_status = ''Locado''\<rparr>"

definition reserva_exemplo :: reserva where
  "reserva_exemplo =
     \<lparr>r_id = 7, r_carro_id = 1, r_cliente_id = 3,
      r_data_inicio = 10, r_data_fim = 13, r_horario_entrega = None,
      r_reserva_status = ''Locada'', r_status = ''Ativa'',
      r_custo_lavagem = 0, r_valor_total = 300,
      r_km_saida = Some 1000, r_km_volta = None, r_km_franquia = Some 300,
      r_adiantamento = Some 150,
      r_valor_multas = 0, r_valor_danos = 0, r_valor_outros = 0,
      r_desconto_cliente = 0, r_meia_diaria = False,
      r_total_diarias = Some 300, r_pagamento_parcial_entrega = 0,
      r_valor_restante = 150\<rparr>"

definition db_exemplo :: db where
  "db_exemplo = \<lparr>carros = [carro_exemplo], reservas = [reserva_exemplo], multas = []\<rparr>"

definition sem_falhas :: falhas where
  "sem_falhas = \<lparr>f_connect = False, f_execute_carros = False, f_execute_reservas = False,
                 f_pdf = False, f_commit = False\<rparr>"

text \<open>
  The return of that reservation on day 20 at 1350 km, no extras, with 100.00 received.
\<close>

definition devolucao_exemplo :: devolucao where
  "devolucao_exemplo =
     \<lparr>dv_data_devolucao = 20, dv_dias_cobranca = 10,
      dv_km_rodados_totais = 350, dv_km_franquia_reserva = 0,
      dv_km_a_cobrar = 350, dv_custo_km = 280,
      dv_custo_diarias_com_desconto = 300,
      dv_subtotal_sem_adiantamento = 580, dv_total_final = 430,
      dv_valor_pago = 100, dv_valor_restante = 330\<rparr>"

definition db_devolvido :: db where
  "db_devolvido =
     \<lparr>carros = [carro_exemplo\<lparr>c_km_atual := 1350, c_status := Disponivel\<rparr>],
      reservas = [reserva_exemplo\<lparr>r_data_fim := 20, r_reserva_status := ''Finalizada'',
                    r_status := ''Finalizada'', r_valor_total := 580,
                    r_km_volta := Some 1350, r_valor_restante := 330\<rparr>],
      multas = []\<rparr>"

text \<open>
  The same reservation before delivery, and the database after it is delivered on day 10
  at 1000 km with the balance of 150.00 collected.
\<close>

definition reserva_reservada :: reserva where
  "reserva_reservada = reserva_exemplo\<lparr>r_reserva_status := ''Reservada''\<rparr>"

definition db_reservado :: db where
  "db_reservado =
     \<lparr>carros = [carro_exemplo\<lparr>c_status := ''Reservado''\<rparr>],
      reservas = [reserva_reservada], multas = []\<rparr>"

definition db_entregue :: db where
  "db_entregue =
     \<lparr>carros = [carro_exemplo],
      reservas = [reserva_exemplo\<lparr>r_horario_entrega := Some 540, r_adiantamento := Some 300,
                    r_valor_restante := 0\<rparr>],
      multas = []\<rparr>"



text \<open>A fine of 200.00 against the returned reservation.\<close>

definition multa_exemplo :: multa where
  "multa_exemplo =
     \<lparr>m_id = 1, m_reserva_id = 7, m_tipo = ''Excesso de Velocidade'', m_valor = 200,
      m_data_multa = 12, m_status = ''Pendente''\<rparr>"

section \<open>Dictionary lookups\<close>

lemma getitem_LOCADO: "getitem STATUS_CARRO ''LOCADO'' = Inr ''Locado''"
  by (simp add: getitem_def STATUS_CARRO_def)



lemma getitem_LOCADA: "getitem STATUS_RESERVA ''LOCADA'' = Inr ''Locada''"
  by (simp add: getitem_def STATUS_RESERVA_def)


section \<open>Table updates\<close>

lemma rowcount_reservas_ex:
  "rowcount_reservas i d \<noteq> 0 \<longleftrightarrow> (\<exists>r \<in> set (reservas d). r_id r = i)"
  by (auto simp: rowcount_reservas_def filter_empty_conv)

lemma reservas_update_carros [simp]: "reservas (update_carros i f d) = reservas d"
  by (simp add: update_carros_def)

lemma carros_update_reservas [simp]: "carros (update_reservas i f d) = carros d"
  by (simp add: update_reservas_def)




lemma rowcount_reservas_update_carros [simp]:
  "rowcount_reservas i (update_carros j f d) = rowcount_reservas i d"
  by (simp add: rowcount_reservas_def update_carros_def)


section \<open>Fleet: the soft-delete action\<close>





section \<open>Availability: the turnover boundary\<close>

text \<open>
  C4. Take a vehicle with a reservation in state \<^verbatim>\<open>Reservada\<close> or \<^verbatim>\<open>Locada\<close> that ends
  exactly on day \<open>D\<close> (and, as the table's \<^verbatim>\<open>CHECK\<close> demands, does not end before it
  starts), and a request that starts on day \<open>D\<close> (and, as every caller checks, does not end
  before it starts). Without same-day turnover, \<open>get_available_vehicles\<close> excludes the
  vehicle: the overlap test is \<open>start \<le> requested end\<close> and \<open>end \<ge> requested start\<close>.
  With same-day turnover the test is strict, that reservation no longer blocks, and the
  vehicle is included, its status being neither \<^verbatim>\<open>Indisponivel\<close> nor \<^verbatim>\<open>Excluido\<close>
  and none of its other reservations blocking the period.
\<close>

theorem C4_turnover_boundary:
  assumes "c \<in> set (carros d)" and "r \<in> set (reservas d)" and "r_carro_id r = c_id c"
    and "r_reserva_status r \<in> {''Reservada'', ''Locada''}"
    and "r_data_fim r = D" and "r_data_inicio r \<le> r_data_fim r" and "D \<le> data_fim"
  shows "c \<notin> set (get_available_vehicles d D data_fim False) \<and>
         \<not> reserva_bloqueia True D data_fim r \<and>
         (c_status c \<notin> {Indisponivel, Excluido} \<and>
          (\<forall>r' \<in> set (reservas d). r_carro_id r' = c_id c \<and> r' \<noteq> r \<longrightarrow>
               \<not> reserva_bloqueia True D data_fim r')
          \<longrightarrow> c \<in> set (get_available_vehicles d D data_fim True))"
proof -
  have blocks: "reserva_bloqueia False D data_fim r"
    using assms(4-7) by (simp add: reserva_bloqueia_def)
  have excluded: "c \<notin> set (get_available_vehicles d D data_fim False)"
  proof -
    have "c_id c \<in> set (map r_carro_id (filter (reserva_bloqueia False D data_fim) (reservas d)))"
      using blocks assms(2,3) by force
    then show ?thesis by (simp add: get_available_vehicles_def)
  qed
  have free: "\<not> reserva_bloqueia True D data_fim r"
    using assms(5) by (simp add: reserva_bloqueia_def)
  have included: "c \<in> set (get_available_vehicles d D data_fim True)"
    if "c_status c \<notin> {Indisponivel, Excluido}"
      and "\<forall>r' \<in> set (reservas d). r_carro_id r' = c_id c \<and> r' \<noteq> r \<longrightarrow>
               \<not> reserva_bloqueia True D data_fim r'"
    using that free assms(1) by (auto simp: get_available_vehicles_def)
  from excluded free included show ?thesis by blast
qed

text \<open>
  The sample reservation ends on day 13; a request for days 13 to 15 misses the car
  without turnover and gets it with turnover.
\<close>

theorem C4_turnover_boundary_witness:
  "carro_exemplo \<notin> set (get_available_vehicles db_exemplo 13 15 False) \<and>
   carro_exemplo \<in> set (get_available_vehicles db_exemplo 13 15 True)"
proof -
  have h1: "carro_exemplo \<in> set (carros db_exemplo)" by (simp add: db_exemplo_def)
  have h2: "reserva_exemplo \<in> set (reservas db_exemplo)" by (simp add: db_exemplo_def)
  have h3: "r_carro_id reserva_exemplo = c_id carro_exemplo"
    by (simp add: reserva_exemplo_def carro_exemplo_def)
  have h4: "r_reserva_status reserva_exemplo \<in> {''Reservada'', ''Locada''}"
    by (simp add: reserva_exemplo_def)
  have h5: "r_data_fim reserva_exemplo = 13" by (simp add: reserva_exemplo_def)
  have h6: "r_data_inicio reserva_exemplo \<le> r_data_fim reserva_exemplo"
    by (simp add: reserva_exemplo_def)
  have h7: "(13::int) \<le> 15" by simp
  have h8: "c_status carro_exemplo \<notin> {Indisponivel, Excluido}"
    by (simp add: carro_exemplo_def Indisponivel_def Excluido_def)
  have h9: "\<forall>r' \<in> set (reservas db_exemplo). r_carro_id r' = c_id carro_exemplo \<and>
              r' \<noteq> reserva_exemplo \<longrightarrow> \<not> reserva_bloqueia True 13 15 r'"
    by (simp add: db_exemplo_def)
  from C4_turnover_boundary [OF h1 h2 h3 h4 h5 h6 h7] h8 h9 show ?thesis by blast
qed

section \<open>Return: the kilometre charge\<close>

lemma calcular_devolucao_exemplo:
  "calcular_devolucao reserva_exemplo (4 / 5) 20 1350 0 0 0 0 100 = Inr devolucao_exemplo"
  by (simp add: calcular_devolucao_def custo_km_def km_a_cobrar_def km_franquia_reserva_def
        km_saida_safe_def reserva_exemplo_def devolucao_exemplo_def)

text \<open>
  C1, as the claim states it, fails: with odometer-out 1000, odometer-in 1350, allowance
  300 and rate 0.80 the charge is 280.00, not \<open>max 0 ((1350 - 1000) - 300) * 0.80 = 40.00\<close>.
\<close>

theorem C1_km_charge_counterexample:
  "km_saida_safe reserva_exemplo = 1000 \<and> r_km_franquia reserva_exemplo = Some 300 \<and>
   custo_km reserva_exemplo (4 / 5) 1350 = 280 \<and>
   custo_km reserva_exemplo (4 / 5) 1350 \<noteq> of_int (max 0 ((1350 - 1000) - 300)) * (4 / 5)"
  by (simp add: custo_km_def km_a_cobrar_def km_franquia_reserva_def km_saida_safe_def
        reserva_exemplo_def)

text \<open>
  C1, amended. For every return with odometer-out \<open>km_saida_safe\<close>, odometer-in
  \<open>km_volta\<close> at least that, allowance \<open>A\<close> and rate \<open>preco_km\<close>: when the distance
  driven exceeds the allowance, every kilometre driven is charged; otherwise nothing is.
\<close>

theorem C1_km_charge:
  assumes "calcular_devolucao reserva preco_km hoje km_volta valor_lavagem valor_multas
             valor_danos valor_outros valor_recebido = Inr dv"
    and "km_saida_safe reserva \<le> km_volta"
    and "r_km_franquia reserva = Some A"
  shows "dv_custo_km dv =
           (if km_volta - km_saida_safe reserva > A
            then of_int (km_volta - km_saida_safe reserva) * preco_km
            else 0)"
proof -
  have "dv_custo_km dv = custo_km reserva preco_km km_volta"
    using assms(1) by (auto simp: calcular_devolucao_def Let_def split: option.splits)
  also have "\<dots> = (if km_volta - km_saida_safe reserva > A
            then of_int (km_volta - km_saida_safe reserva) * preco_km
            else 0)"
    using assms(2,3) by (simp add: custo_km_def km_a_cobrar_def km_franquia_reserva_def Let_def)
  finally show ?thesis .
qed

text \<open>The sample return: 350 km driven against 300 allowed, charged \<open>350 * 0.80\<close>.\<close>

theorem C1_km_charge_witness:
  "calcular_devolucao reserva_exemplo (4 / 5) 20 1350 0 0 0 0 100 = Inr devolucao_exemplo \<and>
   km_saida_safe reserva_exemplo \<le> 1350 \<and>
   r_km_franquia reserva_exemplo = Some 300 \<and>
   dv_custo_km devolucao_exemplo =
     (if 1350 - km_saida_safe reserva_exemplo > 300
      then of_int (1350 - km_saida_safe reserva_exemplo) * (4 / 5) else 0)"
proof -
  have h2: "km_saida_safe reserva_exemplo \<le> 1350"
    by (simp add: km_saida_safe_def reserva_exemplo_def)
  have h3: "r_km_franquia reserva_exemplo = Some 300" by (simp add: reserva_exemplo_def)
  from C1_km_charge [OF calcular_devolucao_exemplo h2 h3] calcular_devolucao_exemplo h2 h3
  show ?thesis by blast
qed

section \<open>Return: the remaining balance\<close>






section \<open>Delivery: all or nothing\<close>

lemma finalizar_entrega_Inl:
  "finalizar_entrega fl contrato d carro_id id_reserva_sel km_confirma data_saida
     horario_entrega dados_carro dados_reserva adiantamento valor_restante = (Inl e, d')
   \<Longrightarrow> d' = d"
  by (simp add: finalizar_entrega_def Let_def getitem_LOCADO getitem_LOCADA split: if_splits)

lemma finalizar_entrega_Inr:
  assumes "finalizar_entrega fl contrato d carro_id id_reserva_sel km_confirma data_saida
     horario_entrega dados_carro dados_reserva adiantamento valor_restante = (Inr pdf, d')"
  shows "pdf = contrato"
    and "d' = update_reservas id_reserva_sel
               (\<lambda>r. r\<lparr>r_km_saida := Some km_confirma,
                      r_data_inicio := data_saida,
                      r_reserva_status := ''Locada'',
                      r_horario_entrega := Some horario_entrega,
                      r_adiantamento := Some adiantamento,
                      r_valor_total := c_diaria dados_carro *
                         of_int (max 1 (r_data_fim dados_reserva - data_saida)),
                      r_valor_restante := valor_restante\<rparr>)
               (update_carros carro_id
                  (\<lambda>c. c\<lparr>c_status := ''Locado'', c_km_atual := km_confirma\<rparr>) d)"
    and "rowcount_carros carro_id d \<noteq> 0" and "rowcount_reservas id_reserva_sel d \<noteq> 0"
    and "\<not> f_connect fl \<and> \<not> f_execute_carros fl \<and> \<not> f_execute_reservas fl \<and>
         \<not> f_pdf fl \<and> \<not> f_commit fl"
  using assms
  by (simp_all add: finalizar_entrega_def Let_def getitem_LOCADO getitem_LOCADA
        split: if_splits)

lemma finalizar_entrega_falha:
  assumes "f_connect fl \<or> f_execute_carros fl \<or> rowcount_carros carro_id d = 0 \<or>
           f_execute_reservas fl \<or> rowcount_reservas id_reserva_sel d = 0 \<or>
           f_pdf fl \<or> f_commit fl"
  shows "\<exists>e. finalizar_entrega fl contrato d carro_id id_reserva_sel km_confirma data_saida
     horario_entrega dados_carro dados_reserva adiantamento valor_restante = (Inl e, d)"
proof (cases "fst (finalizar_entrega fl contrato d carro_id id_reserva_sel km_confirma data_saida
     horario_entrega dados_carro dados_reserva adiantamento valor_restante)")
  case (Inl e)
  then show ?thesis
    using finalizar_entrega_Inl [of fl contrato d carro_id id_reserva_sel km_confirma data_saida
     horario_entrega dados_carro dados_reserva adiantamento valor_restante e]
    by (metis prod.collapse)
next
  case (Inr pdf)
  then have "finalizar_entrega fl contrato d carro_id id_reserva_sel km_confirma data_saida
     horario_entrega dados_carro dados_reserva adiantamento valor_restante =
     (Inr pdf, snd (finalizar_entrega fl contrato d carro_id id_reserva_sel km_confirma data_saida
     horario_entrega dados_carro dados_reserva adiantamento valor_restante))"
    by (metis prod.collapse)
  from finalizar_entrega_Inr(3,4,5) [OF this] assms show ?thesis by auto
qed

text \<open>
  C6. \<open>finalizar_entrega\<close> is atomic. If the connection, the update of the vehicle row
  (the statement or a missing row), the update of the reservation row (the statement or a
  missing row), the generation of the contract or the commit fails, the result is a
  failure and the database is the one before the call. Every failure leaves the database
  as it was. A success returns the contract and the database with both rows updated.
\<close>

theorem C6_deliver_atomic:
  "(f_connect fl \<or> f_execute_carros fl \<or> rowcount_carros carro_id d = 0 \<or>
    f_execute_reservas fl \<or> rowcount_reservas id_reserva_sel d = 0 \<or>
    f_pdf fl \<or> f_commit fl
    \<longrightarrow> (\<exists>e. finalizar_entrega fl contrato d carro_id id_reserva_sel km_confirma data_saida
            horario_entrega dados_carro dados_reserva adiantamento valor_restante = (Inl e, d))) \<and>
   (\<forall>e d'. finalizar_entrega fl contrato d carro_id id_reserva_sel km_confirma data_saida
            horario_entrega dados_carro dados_reserva adiantamento valor_restante = (Inl e, d')
      \<longrightarrow> d' = d) \<and>
   (\<forall>pdf d'. finalizar_entrega fl contrato d carro_id id_reserva_sel km_confirma data_saida
            horario_entrega dados_carro dados_reserva adiantamento valor_restante = (Inr pdf, d')
      \<longrightarrow> pdf = contrato \<and>
          d' = update_reservas id_reserva_sel
                 (\<lambda>r. r\<lparr>r_km_saida := Some km_confirma,
                        r_data_inicio := data_saida,
                        r_reserva_status := ''Locada'',
                        r_horario_entrega := Some horario_entrega,
                        r_adiantamento := Some adiantamento,
                        r_valor_total := c_diaria dados_carro *
                           of_int (max 1 (r_data_fim dados_reserva - data_saida)),
                        r_valor_restante := valor_restante\<rparr>)
                 (update_carros carro_id
                    (\<lambda>c. c\<lparr>c_status := ''Locado'', c_km_atual := km_confirma\<rparr>) d) \<and>
          rowcount_carros carro_id d \<noteq> 0 \<and> rowcount_reservas id_reserva_sel d \<noteq> 0)"
proof (intro conjI allI impI)
  assume "f_connect fl \<or> f_execute_carros fl \<or> rowcount_carros carro_id d = 0 \<or>
    f_execute_reservas fl \<or> rowcount_reservas id_reserva_sel d = 0 \<or> f_pdf fl \<or> f_commit fl"
  then show "\<exists>e. finalizar_entrega fl contrato d carro_id id_reserva_sel km_confirma data_saida
            horario_entrega dados_carro dados_reserva adiantamento valor_restante = (Inl e, d)"
    by (rule finalizar_entrega_falha)
next
  fix e d'
  assume "finalizar_entrega fl contrato d carro_id id_reserva_sel km_confirma data_saida
            horario_entrega dados_carro dados_reserva adiantamento valor_restante = (Inl e, d')"
  then show "d' = d" by (rule finalizar_entrega_Inl)
next
  fix pdf d'
  assume ok: "finalizar_entrega fl contrato d carro_id id_reserva_sel km_confirma data_saida
            horario_entrega dados_carro dados_reserva adiantamento valor_restante = (Inr pdf, d')"
  show "pdf = contrato" by (rule finalizar_entrega_Inr(1) [OF ok])
  show "d' = update_reservas id_reserva_sel
                 (\<lambda>r. r\<lparr>r_km_saida := Some km_confirma,
                        r_data_inicio := data_saida,
                        r_reserva_status := ''Locada'',
                        r_horario_entrega := Some horario_entrega,
                        r_adiantamento := Some adiantamento,
                        r_valor_total := c_diaria dados_carro *
                           of_int (max 1 (r_data_fim dados_reserva - data_saida)),
                        r_valor_restante := valor_restante\<rparr>)
                 (update_carros carro_id
                    (\<lambda>c. c\<lparr>c_status := ''Locado'', c_km_atual := km_confirma\<rparr>) d)"
    by (rule finalizar_entrega_Inr(2) [OF ok])
  show "rowcount_carros carro_id d \<noteq> 0" by (rule finalizar_entrega_Inr(3) [OF ok])
  show "rowcount_reservas id_reserva_sel d \<noteq> 0" by (rule finalizar_entrega_Inr(4) [OF ok])
qed

lemma finalizar_entrega_exemplo:
  "finalizar_entrega sem_falhas ''contrato'' db_reservado 1 7 1000 10 540
     (carro_exemplo\<lparr>c_status := ''Reservado''\<rparr>) reserva_reservada 300 0 =
   (Inr ''contrato'', db_entregue)"
  by (simp add: finalizar_entrega_def getitem_LOCADO getitem_LOCADA sem_falhas_def
        db_reservado_def db_entregue_def reserva_reservada_def reserva_exemplo_def
        carro_exemplo_def update_reservas_def update_carros_def rowcount_reservas_def
        rowcount_carros_def check_datas_def)

text \<open>
  The sample delivery: with a failing generator nothing changes; without failures the car
  and the reservation are updated together.
\<close>

theorem C6_deliver_atomic_witness:
  "f_pdf (sem_falhas\<lparr>f_pdf := True\<rparr>) \<and>
   snd (finalizar_entrega (sem_falhas\<lparr>f_pdf := True\<rparr>) ''contrato'' db_reservado 1 7 1000 10 540
     (carro_exemplo\<lparr>c_status := ''Reservado''\<rparr>) reserva_reservada 300 0) = db_reservado \<and>
   finalizar_entrega sem_falhas ''contrato'' db_reservado 1 7 1000 10 540
     (carro_exemplo\<lparr>c_status := ''Reservado''\<rparr>) reserva_reservada 300 0 =
   (Inr ''contrato'', db_entregue) \<and>
   rowcount_carros 1 db_reservado \<noteq> 0 \<and> rowcount_reservas 7 db_reservado \<noteq> 0"
proof -
  have h: "f_pdf (sem_falhas\<lparr>f_pdf := True\<rparr>)" by simp
  from C6_deliver_atomic [of "sem_falhas\<lparr>f_pdf := True\<rparr>" 1 db_reservado 7 "''contrato''"
      1000 10 540 "carro_exemplo\<lparr>c_status := ''Reservado''\<rparr>" reserva_reservada 300 0] h
  have a: "snd (finalizar_entrega (sem_falhas\<lparr>f_pdf := True\<rparr>) ''contrato'' db_reservado 1 7
     1000 10 540 (carro_exemplo\<lparr>c_status := ''Reservado''\<rparr>) reserva_reservada 300 0) =
     db_reservado"
    by fastforce
  from C6_deliver_atomic [of sem_falhas 1 db_reservado 7 "''contrato''"
      1000 10 540 "carro_exemplo\<lparr>c_status := ''Reservado''\<rparr>" reserva_reservada 300 0]
    finalizar_entrega_exemplo
  have b: "rowcount_carros 1 db_reservado \<noteq> 0 \<and> rowcount_reservas 7 db_reservado \<noteq> 0"
    by blast
  from h a b finalizar_entrega_exemplo show ?thesis by blast
qed

section \<open>Delivery: the amounts written\<close>





section \<open>Pricing: the stored total of daily charges\<close>





section \<open>Fines: the reservation's operational status\<close>

text \<open>
  What the status form does to the reservation of a fine, for every fine and every new
  status the form offers: \<^verbatim>\<open>Paga\<close> writes \<^verbatim>\<open>Finalizada\<close>, the two others,
  \<^verbatim>\<open>Isentada\<close> included, write \<^verbatim>\<open>Com Multa Pendente\<close>.
\<close>

lemma atualizar_status_multa_reserva:
  assumes "novo_status \<in> set status_opcoes" and "novo_status \<noteq> m_status multa"
    and "r \<in> set (reservas (atualizar_status_multa d multa novo_status))"
    and "r_id r = m_reserva_id multa"
  shows "r_status r = (if novo_status = ''Paga'' then ''Finalizada'' else Com_Multa_Pendente)"
  using assms(2-4)
  by (auto simp: atualizar_status_multa_def update_reservas_def update_multas_def
        split: if_splits)

text \<open>
  C2. Setting a fine to \<^verbatim>\<open>Paga\<close> or to \<^verbatim>\<open>Isentada\<close> should bring the reservation back
  to \<^verbatim>\<open>Finalizada\<close> when no other fine of it is pending. On the returned sample
  reservation: registering a fine moves it from \<^verbatim>\<open>Finalizada\<close> to
  \<^verbatim>\<open>Com Multa Pendente\<close>; \<^verbatim>\<open>Paga\<close> moves it back to \<^verbatim>\<open>Finalizada\<close>; but
  \<^verbatim>\<open>Isentada\<close>, with that fine the only one, leaves it \<^verbatim>\<open>Com Multa Pendente\<close>.
\<close>

theorem C2_fine_lifecycle:
  "map r_status (reservas db_devolvido) = [''Finalizada''] \<and>
   multas (registrar_multa db_devolvido 1 7 ''Excesso de Velocidade'' 200 12) = [multa_exemplo] \<and>
   map r_status (reservas (registrar_multa db_devolvido 1 7 ''Excesso de Velocidade'' 200 12)) =
     [Com_Multa_Pendente] \<and>
   map r_status (reservas (atualizar_status_multa
       (registrar_multa db_devolvido 1 7 ''Excesso de Velocidade'' 200 12) multa_exemplo ''Paga'')) =
     [''Finalizada''] \<and>
   map m_status (multas (atualizar_status_multa
       (registrar_multa db_devolvido 1 7 ''Excesso de Velocidade'' 200 12) multa_exemplo ''Isentada'')) =
     [''Isentada''] \<and>
   map r_status (reservas (atualizar_status_multa
       (registrar_multa db_devolvido 1 7 ''Excesso de Velocidade'' 200 12) multa_exemplo ''Isentada'')) =
     [Com_Multa_Pendente] \<and>
   Com_Multa_Pendente \<noteq> ''Finalizada''"
  by (simp add: registrar_multa_def atualizar_status_multa_def update_reservas_def
        update_multas_def db_devolvido_def multa_exemplo_def reserva_exemplo_def
        Com_Multa_Pendente_def)

end
